theory Spec2Isabelle
  imports Complex_Main
begin

section \<open>JavaScript values\<close>

text \<open>
  The backend is an Express application over a Mongoose document store. Request
  fields that may be absent are \<open>option\<close> values (\<open>None\<close> is \<open>undefined\<close>), a thrown
  \<open>Error\<close> is the left summand of a sum and carries the error's \<open>message\<close>, and the
  store is passed in and returned. A \<open>char\<close> stands for one UTF-16 code unit below
  256, which covers every literal of the source. A number is the rational that
  the double holds; comparisons are exact on it, and where a double is computed
  the rounding is written out.
\<close>

type_synonym objectId = string

type_synonym 'a js = "string + 'a"

definition falsy :: "string option \<Rightarrow> bool" where
  \<comment> \<open>\<open>!x\<close> for a value that is a string or \<open>undefined\<close>\<close>
  "falsy v = (case v of None \<Rightarrow> True | Some s \<Rightarrow> s = [])"

definition ToString :: "string option \<Rightarrow> string" where
  \<comment> \<open>the conversion \<open>RegExp.prototype.test\<close> applies to its argument\<close>
  "ToString v = (case v of None \<Rightarrow> ''undefined'' | Some s \<Rightarrow> s)"

definition string_or_empty :: "string option \<Rightarrow> string" where
  "string_or_empty v = (case v of None \<Rightarrow> [] | Some s \<Rightarrow> s)"

definition whitespace :: "char \<Rightarrow> bool" where
  \<comment> \<open>the white space and line terminators \<open>String.prototype.trim\<close> removes\<close>
  "whitespace c = (c \<in> set [CHR 0x09, CHR 0x0A, CHR 0x0B, CHR 0x0C, CHR 0x0D, CHR 0x20, CHR 0xA0])"

definition trim :: "string \<Rightarrow> string" where
  "trim s = rev (dropWhile whitespace (rev (dropWhile whitespace s)))"

fun split :: "char \<Rightarrow> string \<Rightarrow> string list" where
  "split sep [] = [[]]"
| "split sep (c # cs) =
     (if c = sep then [] # split sep cs
      else (case split sep cs of [] \<Rightarrow> [[c]] | w # ws \<Rightarrow> (c # w) # ws))"

fun join :: "string \<Rightarrow> string list \<Rightarrow> string" where
  "join sep [] = []"
| "join sep [s] = s"
| "join sep (s # t # ss) = s @ sep @ join sep (t # ss)"

definition wrap :: "string \<Rightarrow> 'a js \<Rightarrow> 'a js" where
  \<comment> \<open>\<open>try { ... } catch (error) { throw new Error(prefix + error.message) }\<close>\<close>
  "wrap prefix r = (case r of Inl m \<Rightarrow> Inl (prefix @ m) | Inr v \<Rightarrow> Inr v)"

section \<open>The password policy\<close>

text \<open>
  \<open>passwordRegex\<close> of \<open>UserController.passwordValidation\<close> (and the \<open>match\<close> of
  \<open>UserSchema.password\<close>) is
  \<^verbatim>\<open>^(?=.*[A-Z])(?=.*\d)(?=.*[S])[A-Za-z\dS]{8,}$\<close>
  where \<open>S\<close> is the symbol class below. The three lookaheads ask for an upper-case
  letter, a digit and a symbol somewhere after the start; the body asks that the
  whole string consists of at least eight characters of the allowed class. No
  allowed character is a line terminator, so \<open>.*\<close> in a lookahead reaches every
  position of a string the body accepts.
\<close>

definition upper :: "char \<Rightarrow> bool" where
  \<comment> \<open>\<open>[A-Z]\<close>\<close>
  "upper c = ((65::nat) \<le> of_char c \<and> of_char c \<le> (90::nat))"

definition lower :: "char \<Rightarrow> bool" where
  \<comment> \<open>\<open>[a-z]\<close>\<close>
  "lower c = ((97::nat) \<le> of_char c \<and> of_char c \<le> (122::nat))"

definition digit :: "char \<Rightarrow> bool" where
  \<comment> \<open>\<open>\d\<close>\<close>
  "digit c = ((48::nat) \<le> of_char c \<and> of_char c \<le> (57::nat))"

definition symbols :: string where
  \<comment> \<open>the class \<^verbatim>\<open>[!@#$%^&*()_+\-=\[\]{};':"\\|,.<>\/?]\<close>\<close>
  "symbols = ''!@#$%^&*()_+-=[]{};'' @ [CHR 0x27] @ '':'' @ [CHR 0x22, CHR 0x5C] @ ''|,.<>/?''"

definition symbol :: "char \<Rightarrow> bool" where
  "symbol c = (c \<in> set symbols)"

definition allowed :: "char \<Rightarrow> bool" where
  \<comment> \<open>the class of the body, \<open>[A-Za-z\dS]\<close>\<close>
  "allowed c = (upper c \<or> lower c \<or> digit c \<or> symbol c)"

definition passwordRegex_test :: "string \<Rightarrow> bool" where
  "passwordRegex_test s =
     (list_ex upper s \<and> list_ex digit s \<and> list_ex symbol s \<and>
      list_all allowed s \<and> 8 \<le> length s)"

section \<open>External libraries\<close>

text \<open>
  \<open>jsonwebtoken\<close> is modelled symbolically: a signed token records its payload's
  \<open>userId\<close>, the secret it was signed with and its issue and expiry times in
  seconds; any other cookie or request value is \<open>Opaque\<close>. \<open>jwt.verify\<close> throws
  (here \<open>None\<close>) on a malformed token, on another secret and from the expiry time
  on, and returns the payload otherwise. Time is \<open>Date.now()\<close>, in milliseconds.
\<close>

datatype token = Jwt (jwt_userId: objectId) (jwt_secret: string) (jwt_iat: nat) (jwt_exp: nat)
  | Opaque string

definition jwt_sign :: "objectId \<Rightarrow> string \<Rightarrow> nat \<Rightarrow> nat \<Rightarrow> token" where
  \<comment> \<open>\<open>jwt.sign({ userId }, secret, { expiresIn })\<close> at time \<open>now\<close>, \<open>expiresIn\<close> in seconds\<close>
  "jwt_sign userId secret expiresIn now =
     Jwt userId secret (now div 1000) (now div 1000 + expiresIn)"

definition jwt_verify :: "token \<Rightarrow> string \<Rightarrow> nat \<Rightarrow> objectId option" where
  "jwt_verify t secret now =
     (case t of
        Opaque _ \<Rightarrow> None
      | Jwt userId k _ e \<Rightarrow> if k = secret \<and> now div 1000 < e then Some userId else None)"

definition no_token :: "token option \<Rightarrow> bool" where
  \<comment> \<open>\<open>!token\<close>: the cookie is absent or the empty string\<close>
  "no_token c = (case c of None \<Rightarrow> True | Some (Opaque s) \<Rightarrow> s = [] | Some (Jwt _ _ _ _) \<Rightarrow> False)"

text \<open>
  \<open>bcrypt\<close> draws a random salt and SendGrid is a remote service, so what they
  return is given by the environment: \<open>bcrypt_hash p\<close> is the string
  \<open>bcrypt.hash(p, 10)\<close> yields, \<open>bcrypt_compare p h\<close> the answer of
  \<open>bcrypt.compare(p, h)\<close>, and \<open>sgMail_send m\<close> is \<open>None\<close> when the mail is accepted
  and the error's message when \<open>sgMail.send\<close> throws.
\<close>

record mail =
  mail_to :: string
  mail_from :: "string option"
  mail_subject :: string
  mail_baseUrl :: string
  mail_token :: token
  mail_email :: string

record libs =
  bcrypt_hash :: "string \<Rightarrow> string"
  bcrypt_compare :: "string \<Rightarrow> string \<Rightarrow> bool"
  sgMail_send :: "mail \<Rightarrow> string option"

record env =
  JWT_SECRET :: "string option"
  COOKIE_CONTROL :: "string option"
  NODE_ENV :: "string option"
  ORIGIN :: "string option"
  EMAIL_USER :: "string option"

section \<open>Documents and schemas\<close>

text \<open>
  \<open>IUser\<close>, \<open>IReview\<close> and \<open>IFavorite\<close> with their \<open>_id\<close>. A string path that is
  absent is the empty string (the \<open>required\<close> validator refuses both), an absent
  \<open>age\<close> is \<open>None\<close>, and \<open>null\<close> in the two reset fields is \<open>None\<close>. The
  \<open>createdAt\<close> and \<open>updatedAt\<close> stamps that the \<open>timestamps\<close> option lets the store
  maintain are not part of the model.
\<close>

record user =
  u_id :: objectId
  firstName :: string
  lastName :: string
  age :: "rat option"
  email :: string
  password :: string
  resetPasswordToken :: "token option"
  resetPasswordExpires :: "nat option"

record review =
  r_id :: objectId
  userId :: objectId
  movieId :: string
  comment :: string
  rating :: rat

record favorite =
  f_id :: objectId
  f_userId :: string
  f_movieId :: string

record store =
  users :: "user list"
  reviews :: "review list"
  favorites :: "favorite list"

text \<open>
  A Mongoose model, as far as \<open>GlobalDao\<close> uses it: its name, the \<open>_id\<close> of a
  document, the schema's validators (each failing path with its message, in the
  schema's order, one message per path) and its unique indexes other than \<open>_id\<close>.
  The messages given in the schemas are the source's. Those of the built-in
  validators are the library's: \<open>required\<close> is written as the library words it,
  \<open>min\<close>, \<open>minlength\<close> and \<open>match\<close> are abbreviated (the library also quotes the
  offending value), and failing paths are listed in the schema's order. Ids are
  strings: the cast to \<open>ObjectId\<close>, which a malformed id fails, is not part of the
  model.
\<close>

record 'd model =
  modelName :: string
  doc_id :: "'d \<Rightarrow> objectId"
  validators :: "'d \<Rightarrow> (string \<times> string) list"
  collide :: "'d \<Rightarrow> 'd \<Rightarrow> bool"

definition required :: "string \<Rightarrow> string \<Rightarrow> (string \<times> string) list \<Rightarrow> (string \<times> string) list" where
  \<comment> \<open>\<open>required: true\<close> on a string path, then the path's other validators\<close>
  "required path v others =
     (if v = [] then [(path, ''Path `'' @ path @ ''` is required.'')] else others)"

definition User :: "user model" where
  "User = \<lparr> modelName = ''User'', doc_id = u_id,
     validators = (\<lambda>u.
        required ''firstName'' (firstName u) [] @
        required ''lastName'' (lastName u) [] @
        (case age u of
           None \<Rightarrow> [(''age'', ''Path `age` is required.'')]
         | Some a \<Rightarrow> if a < 13 then [(''age'', ''Path `age` is less than minimum allowed value (13).'')] else []) @
        required ''email'' (email u) [] @
        required ''password'' (password u)
          (if length (password u) < 8
           then [(''password'', ''Path `password` is shorter than the minimum allowed length (8).'')]
           else if passwordRegex_test (password u) then []
           else [(''password'', ''Path `password` is invalid.'')])),
     collide = (\<lambda>a b. email a = email b) \<rparr>"

definition msg_comentario_corto :: string where
  "msg_comentario_corto = ''El comentario es muy corto.''"

definition msg_comentario_largo :: string where
  "msg_comentario_largo = ''El comentario es demasiado largo.''"

definition msg_calificacion_minima :: string where
  "msg_calificacion_minima = ''La calificaci'' @ [CHR 0xF3] @ ''n m'' @ [CHR 0xED] @ ''nima es 1''"

definition msg_calificacion_maxima :: string where
  "msg_calificacion_maxima = ''La calificaci'' @ [CHR 0xF3] @ ''n m'' @ [CHR 0xE1] @ ''xima es 5''"

definition Review :: "review model" where
  "Review = \<lparr> modelName = ''Review'', doc_id = r_id,
     validators = (\<lambda>r.
        required ''userId'' (userId r) [] @
        required ''movieId'' (movieId r) [] @
        required ''comment'' (comment r)
          (if length (comment r) < 3 then [(''comment'', msg_comentario_corto)]
           else if 1000 < length (comment r) then [(''comment'', msg_comentario_largo)]
           else []) @
        (if rating r < 1 then [(''rating'', msg_calificacion_minima)]
         else if 5 < rating r then [(''rating'', msg_calificacion_maxima)]
         else [])),
     collide = (\<lambda>a b. userId a = userId b \<and> movieId a = movieId b) \<rparr>"

definition Favorite :: "favorite model" where
  "Favorite = \<lparr> modelName = ''Favorite'', doc_id = f_id,
     validators = (\<lambda>f.
        required ''userId'' (f_userId f) [] @
        required ''movieId'' (f_movieId f) []),
     collide = (\<lambda>a b. False) \<rparr>"

definition validation_message :: "'d model \<Rightarrow> (string \<times> string) list \<Rightarrow> string" where
  \<comment> \<open>the message of the \<open>ValidationError\<close> that \<open>document.save()\<close> throws\<close>
  "validation_message M errs =
     modelName M @ '' validation failed: '' @ join '', '' (map (\<lambda>(p, m). p @ '': '' @ m) errs)"

definition update_validation_message :: "(string \<times> string) list \<Rightarrow> string" where
  \<comment> \<open>the message of the \<open>ValidationError\<close> of the update validators, which does not
      name the model\<close>
  "update_validation_message errs =
     ''Validation failed: '' @ join '', '' (map (\<lambda>(p, m). p @ '': '' @ m) errs)"

definition duplicate_key_message :: string where
  "duplicate_key_message = ''E11000 duplicate key error''"

section \<open>GlobalDao\<close>

fun replace1 :: "('d \<Rightarrow> bool) \<Rightarrow> 'd \<Rightarrow> 'd list \<Rightarrow> 'd list" where
  "replace1 P d [] = []"
| "replace1 P d (x # xs) = (if P x then d # xs else x # replace1 P d xs)"

definition GlobalDao_create :: "'d model \<Rightarrow> 'd list \<Rightarrow> 'd \<Rightarrow> ('d \<times> 'd list) js" where
  \<comment> \<open>\<open>new this.model(data)\<close> is the caller's \<open>d\<close>; \<open>document.save()\<close> validates, then inserts\<close>
  "GlobalDao_create M docs d =
     wrap ''Error creating document: ''
       (case validators M d of
          e # es \<Rightarrow> Inl (validation_message M (e # es))
        | [] \<Rightarrow>
            if list_ex (\<lambda>x. doc_id M x = doc_id M d \<or> collide M d x) docs
            then Inl duplicate_key_message
            else Inr (d, docs @ [d]))"

definition GlobalDao_read :: "'d model \<Rightarrow> 'd list \<Rightarrow> objectId \<Rightarrow> 'd js" where
  "GlobalDao_read M docs i =
     wrap ''Error getting document by ID: ''
       (case find (\<lambda>x. doc_id M x = i) docs of
          None \<Rightarrow> Inl ''Document not found''
        | Some d \<Rightarrow> Inr d)"

definition GlobalDao_update :: "'d model \<Rightarrow> 'd list \<Rightarrow> objectId \<Rightarrow> 'd \<Rightarrow> ('d \<times> 'd list) js" where
  \<comment> \<open>\<open>findByIdAndUpdate(id, updateData, { new: true, runValidators: true })\<close>; every
      caller passes the whole document it has read and changed\<close>
  "GlobalDao_update M docs i d =
     wrap ''Error updating document by ID: ''
       (case validators M d of
          e # es \<Rightarrow> Inl (update_validation_message (e # es))
        | [] \<Rightarrow>
          (case find (\<lambda>x. doc_id M x = i) docs of
             None \<Rightarrow> Inl ''Document not found''
           | Some old \<Rightarrow>
               if list_ex (\<lambda>x. collide M d x \<and> doc_id M x \<noteq> i) docs then Inl duplicate_key_message
               else Inr (d, replace1 (\<lambda>x. doc_id M x = i) d docs)))"

definition GlobalDao_delete :: "'d model \<Rightarrow> 'd list \<Rightarrow> objectId \<Rightarrow> ('d \<times> 'd list) js" where
  "GlobalDao_delete M docs i =
     wrap ''Error deleting document by ID: ''
       (case find (\<lambda>x. doc_id M x = i) docs of
          None \<Rightarrow> Inl ''Document not found''
        | Some d \<Rightarrow> Inr (d, remove1 d docs))"

section \<open>UserDao and ReviewDAO\<close>

definition UserDao_readByEmail :: "user list \<Rightarrow> string option \<Rightarrow> user option" where
  \<comment> \<open>\<open>User.findOne({ email: emailToSearch })\<close>\<close>
  "UserDao_readByEmail us emailToSearch = find (\<lambda>u. Some (email u) = emailToSearch) us"

definition UserDao_readByResetToken :: "user list \<Rightarrow> string option \<Rightarrow> token option \<Rightarrow> nat \<Rightarrow> user option" where
  \<comment> \<open>\<open>User.findOne({ email, resetPasswordToken: token, resetPasswordExpires: { $gt: Date.now() } })\<close>\<close>
  "UserDao_readByResetToken us e t now =
     find (\<lambda>u. Some (email u) = e \<and> resetPasswordToken u = t \<and>
                (case resetPasswordExpires u of None \<Rightarrow> False | Some x \<Rightarrow> now < x)) us"

definition ReviewDAO_findByUserAndMovie :: "review list \<Rightarrow> string option \<Rightarrow> string option \<Rightarrow> review option" where
  \<comment> \<open>\<open>Review.findOne({ userId, movieId })\<close>\<close>
  "ReviewDAO_findByUserAndMovie rs u m = find (\<lambda>r. Some (userId r) = u \<and> Some (movieId r) = m) rs"

definition ReviewDAO_updateByUserAndMovie ::
    "review list \<Rightarrow> string option \<Rightarrow> string option \<Rightarrow> string option \<Rightarrow> rat option \<Rightarrow> (review \<times> review list) option" where
  \<comment> \<open>\<open>Review.findOneAndUpdate({ userId, movieId }, data, { new: true })\<close>: the paths of
      \<open>data\<close> are cast and set (\<open>trim\<close> is a setter), and no validator runs\<close>
  "ReviewDAO_updateByUserAndMovie rs u m c x =
     (case find (\<lambda>r. Some (userId r) = u \<and> Some (movieId r) = m) rs of
        None \<Rightarrow> None
      | Some r \<Rightarrow>
          let r' = r\<lparr> comment := (case c of None \<Rightarrow> comment r | Some s \<Rightarrow> trim s),
                      rating := (case x of None \<Rightarrow> rating r | Some y \<Rightarrow> y) \<rparr>
          in Some (r', replace1 (\<lambda>r. Some (userId r) = u \<and> Some (movieId r) = m) r' rs))"








section \<open>Requests and responses\<close>

text \<open>
  The messages of the source that carry accented letters, each accented letter
  written as its code unit.
\<close>

definition msg_ya_resenado :: string where
  "msg_ya_resenado = ''Ya has rese'' @ [CHR 0xF1] @ ''ado esta pel'' @ [CHR 0xED] @ ''cula''"

definition msg_correo_en_uso :: string where
  "msg_correo_en_uso = ''Correo electr'' @ [CHR 0xF3] @ ''nico ya en uso''"

definition msg_credenciales :: string where
  "msg_credenciales = ''Correo electr'' @ [CHR 0xF3] @ ''nico o contrase'' @ [CHR 0xF1] @ ''a inv'' @ [CHR 0xE1] @ ''lidos''"

definition msg_no_coinciden :: string where
  "msg_no_coinciden = ''La contrase'' @ [CHR 0xF1] @ ''a y la confirmaci'' @ [CHR 0xF3] @ ''n de contrase'' @ [CHR 0xF1] @ ''a no coinciden''"

definition msg_no_valida :: string where
  "msg_no_valida = ''La contrase'' @ [CHR 0xF1] @ ''a no es v'' @ [CHR 0xE1] @ ''lida''"

definition msg_jwt_secret :: string where
  "msg_jwt_secret = ''JWT_SECRET no est'' @ [CHR 0xE1] @ '' definido en las variables de entorno''"

definition msg_cookie_control :: string where
  "msg_cookie_control = ''COOKIE_CONTROL no est'' @ [CHR 0xE1] @ '' definido en las variables de entorno''"

definition msg_origin :: string where
  "msg_origin = ''No se encontr'' @ [CHR 0xF3] @ '' ninguna URL v'' @ [CHR 0xE1] @ ''lida en la variable ORIGIN''"

definition msg_token_invalido :: string where
  "msg_token_invalido = ''Token inv'' @ [CHR 0xE1] @ ''lido o expirado''"

definition msg_intentalo :: string where
  "msg_intentalo = ''Int'' @ [CHR 0xE9] @ ''ntalo de nuevo m'' @ [CHR 0xE1] @ ''s tarde''"

definition msg_no_token :: string where
  "msg_no_token = ''No se proporcion'' @ [CHR 0xF3] @ '' token de autenticaci'' @ [CHR 0xF3] @ ''n''"

definition msg_no_encontro :: string where
  "msg_no_encontro = ''No se encontr'' @ [CHR 0xF3] @ '' la rese'' @ [CHR 0xF1] @ ''a''"

definition msg_resena_eliminada :: string where
  "msg_resena_eliminada = ''Rese'' @ [CHR 0xF1] @ ''a eliminada correctamente''"

definition msg_subject :: string where
  "msg_subject = ''Recuperar contrase'' @ [CHR 0xF1] @ ''a - Lumix''"

text \<open>
  \<open>req.body\<close> of the user routes and of the review and favorite routes. The user
  body lists, besides the fields the handlers read, the other paths of the user
  schema a client may send.
\<close>

record user_body =
  req_firstName :: "string option"
  req_lastName :: "string option"
  req_age :: "rat option"
  req_email :: "string option"
  req_password :: "string option"
  req_confirmPassword :: "string option"
  req_token :: "token option"
  req_resetPasswordToken :: "token option"
  req_resetPasswordExpires :: "nat option"

record review_body =
  req_userId :: "string option"
  req_movieId :: "string option"
  req_comment :: "string option"
  req_rating :: "rat option"

datatype body =
    Message string
  | ReviewBody review
  | FavoriteBody favorite
  | IdBody objectId
  | LoginBody string objectId string
  | AverageBody string rat

text \<open>
  What a handler leaves behind: the status and JSON body of the response, the
  \<open>token\<close> cookie it sets, the store, and the lines written to the console. A
  handler is modelled as the router calls it, after the middleware of its route
  has passed the request on.
\<close>

record result =
  status :: nat
  body :: body
  cookie :: "token option"
  db :: store
  console :: "string list"

definition respond :: "nat \<Rightarrow> body \<Rightarrow> store \<Rightarrow> result" where
  "respond code b st = \<lparr> status = code, body = b, cookie = None, db = st, console = [] \<rparr>"

section \<open>authenticateToken\<close>

datatype auth = Denied nat string | Next objectId

definition authenticateToken :: "env \<Rightarrow> token option \<Rightarrow> nat \<Rightarrow> auth" where
  \<comment> \<open>\<open>Next userId\<close> is \<open>req.userId = decodedToken.userId; next()\<close>\<close>
  "authenticateToken e c now =
     (if no_token c then Denied 401 msg_no_token
      else case c of
        None \<Rightarrow> Denied 401 msg_no_token
      | Some t \<Rightarrow>
          (case JWT_SECRET e of
             None \<Rightarrow> Denied 401 msg_token_invalido
           | Some jwtSecret \<Rightarrow>
               if jwtSecret = [] then Denied 401 msg_token_invalido
               else (case jwt_verify t jwtSecret now of
                       None \<Rightarrow> Denied 401 msg_token_invalido
                     | Some uid \<Rightarrow> Next uid)))"

section \<open>UserController\<close>

definition UserController_passwordValidation :: "user_body \<Rightarrow> string option \<times> user_body" where
  \<comment> \<open>the error message or \<open>null\<close>, and the body after \<open>delete req.body.confirmPassword\<close>\<close>
  "UserController_passwordValidation b =
     (if req_password b \<noteq> req_confirmPassword b then (Some msg_no_coinciden, b)
      else let b' = b\<lparr> req_confirmPassword := None \<rparr> in
        if \<not> passwordRegex_test (ToString (req_password b')) then (Some msg_no_valida, b')
        else (None, b'))"

definition UserController_hashPassword :: "libs \<Rightarrow> user_body \<Rightarrow> user_body js" where
  \<comment> \<open>\<open>bcrypt.hash\<close> throws on a password that is \<open>undefined\<close>\<close>
  "UserController_hashPassword L b =
     (case req_password b of
        None \<Rightarrow> Inl ''data and salt arguments required''
      | Some p \<Rightarrow> Inr (b\<lparr> req_password := Some (bcrypt_hash L p) \<rparr>))"

definition new_User :: "objectId \<Rightarrow> user_body \<Rightarrow> user" where
  \<comment> \<open>\<open>new User(req.body)\<close> with the \<open>_id\<close> the driver draws\<close>
  "new_User i b = \<lparr> u_id = i,
     firstName = string_or_empty (req_firstName b),
     lastName = string_or_empty (req_lastName b),
     age = req_age b,
     email = string_or_empty (req_email b),
     password = string_or_empty (req_password b),
     resetPasswordToken = req_resetPasswordToken b,
     resetPasswordExpires = req_resetPasswordExpires b \<rparr>"

definition development_log :: "env \<Rightarrow> string \<Rightarrow> string list" where
  \<comment> \<open>\<open>if (process.env.NODE_ENV === "development") console.error(error)\<close>\<close>
  "development_log e m = (if NODE_ENV e = Some ''development'' then [m] else [])"

definition internal_server_error :: "env \<Rightarrow> store \<Rightarrow> string \<Rightarrow> result" where
  "internal_server_error e st m =
     \<lparr> status = 500, body = Message ''Internal Server Error'', cookie = None, db = st,
       console = development_log e m \<rparr>"

definition UserController_create :: "libs \<Rightarrow> env \<Rightarrow> store \<Rightarrow> objectId \<Rightarrow> user_body \<Rightarrow> result" where
  "UserController_create L e st newId b =
     (case UserController_passwordValidation b of
        (Some passwordError, _) \<Rightarrow> respond 400 (Message passwordError) st
      | (None, b1) \<Rightarrow>
          (case UserDao_readByEmail (users st) (req_email b1) of
             Some existingUser \<Rightarrow> respond 409 (Message msg_correo_en_uso) st
           | None \<Rightarrow>
               (case UserController_hashPassword L b1 of
                  Inl m \<Rightarrow> internal_server_error e st m
                | Inr b2 \<Rightarrow>
                    (case GlobalDao_create User (users st) (new_User newId b2) of
                       Inl m \<Rightarrow> internal_server_error e st m
                     | Inr (newUser, us) \<Rightarrow>
                         respond 201 (IdBody (u_id newUser)) (st\<lparr> users := us \<rparr>)))))"

definition UserController_login :: "libs \<Rightarrow> env \<Rightarrow> store \<Rightarrow> user_body \<Rightarrow> nat \<Rightarrow> result" where
  \<comment> \<open>\<open>bcrypt.compare\<close> throws on a password that is \<open>undefined\<close>; \<open>'2h'\<close> is 7200 seconds\<close>
  "UserController_login L e st b now =
     (case UserDao_readByEmail (users st) (req_email b) of
        None \<Rightarrow> respond 401 (Message msg_credenciales) st
      | Some user \<Rightarrow>
          (case req_password b of
             None \<Rightarrow> internal_server_error e st ''data and hash arguments required''
           | Some p \<Rightarrow>
               if \<not> bcrypt_compare L p (password user) then respond 401 (Message msg_credenciales) st
               else (case JWT_SECRET e of
                  None \<Rightarrow> internal_server_error e st msg_jwt_secret
                | Some jwtSecret \<Rightarrow>
                    if jwtSecret = [] then internal_server_error e st msg_jwt_secret
                    else let token = jwt_sign (u_id user) jwtSecret 7200 now in
                      if falsy (COOKIE_CONTROL e) then internal_server_error e st msg_cookie_control
                      else \<lparr> status = 200,
                             body = LoginBody ''Login successful'' (u_id user) (email user),
                             cookie = Some token, db = st, console = [] \<rparr>)))"

definition origins :: "env \<Rightarrow> string list" where
  \<comment> \<open>\<open>process.env.ORIGIN?.split(",").map(url => url.trim()).filter(Boolean)\<close>, an
      \<open>undefined\<close> result being treated by the caller as the empty list is\<close>
  "origins e =
     (case ORIGIN e of
        None \<Rightarrow> []
      | Some s \<Rightarrow> filter (\<lambda>url. url \<noteq> []) (map trim (split CHR '','' s)))"

definition forgot_password_error :: "store \<Rightarrow> string \<Rightarrow> result" where
  \<comment> \<open>\<open>console.error("Forgot password error:", error.message || error)\<close>\<close>
  "forgot_password_error st m =
     \<lparr> status = 500, body = Message ''Internal Server Error'', cookie = None, db = st,
       console = [''Forgot password error: '' @ m] \<rparr>"

definition UserController_forgotPassword :: "libs \<Rightarrow> env \<Rightarrow> store \<Rightarrow> user_body \<Rightarrow> nat \<Rightarrow> result" where
  \<comment> \<open>\<open>'1h'\<close> is 3600 seconds, and the expiry stored is \<open>Date.now() + 3600000\<close>\<close>
  "UserController_forgotPassword L e st b now =
     (case UserDao_readByEmail (users st) (req_email b) of
        None \<Rightarrow>
          respond 202
            (Message ''If the email is registered, you will receive a password reset email'') st
      | Some user \<Rightarrow>
          (case JWT_SECRET e of
             None \<Rightarrow> forgot_password_error st msg_jwt_secret
           | Some jwtSecret \<Rightarrow>
               if jwtSecret = [] then forgot_password_error st msg_jwt_secret
               else let token = jwt_sign (u_id user) jwtSecret 3600 now;
                        user' = user\<lparr> resetPasswordToken := Some token,
                                      resetPasswordExpires := Some (now + 3600000) \<rparr>
                 in (case GlobalDao_update User (users st) (u_id user) user' of
                       Inl m \<Rightarrow> forgot_password_error st m
                     | Inr (_, us) \<Rightarrow>
                         let st' = st\<lparr> users := us \<rparr> in
                         (case origins e of
                            [] \<Rightarrow> forgot_password_error st' msg_origin
                          | baseUrl # _ \<Rightarrow>
                              (case sgMail_send L
                                      \<lparr> mail_to = email user', mail_from = EMAIL_USER e,
                                        mail_subject = msg_subject, mail_baseUrl = baseUrl,
                                        mail_token = token, mail_email = email user' \<rparr> of
                                 Some m \<Rightarrow> forgot_password_error st' m
                               | None \<Rightarrow>
                                   \<lparr> status = 200, body = Message ''Password reset email sent'',
                                     cookie = None, db = st',
                                     console = ['' Correo enviado exitosamente a: '' @ email user'] \<rparr>)))))"

definition UserController_resetPassword :: "libs \<Rightarrow> env \<Rightarrow> store \<Rightarrow> user_body \<Rightarrow> nat \<Rightarrow> result" where
  "UserController_resetPassword L e st b now =
     (case UserDao_readByResetToken (users st) (req_email b) (req_token b) now of
        None \<Rightarrow> respond 400 (Message msg_token_invalido) st
      | Some user \<Rightarrow>
          (case UserController_passwordValidation b of
             (Some passwordError, _) \<Rightarrow> respond 400 (Message passwordError) st
           | (None, b1) \<Rightarrow>
               (case UserController_hashPassword L b1 of
                  Inl m \<Rightarrow>
                    \<lparr> status = 500, body = Message msg_intentalo, cookie = None, db = st,
                      console = development_log e m \<rparr>
                | Inr b2 \<Rightarrow>
                    let user' = user\<lparr> password := string_or_empty (req_password b2),
                                      resetPasswordToken := None,
                                      resetPasswordExpires := None \<rparr>
                    in (case GlobalDao_update User (users st) (u_id user) user' of
                          Inl m \<Rightarrow>
                            \<lparr> status = 500, body = Message msg_intentalo, cookie = None, db = st,
                              console = development_log e m \<rparr>
                        | Inr (_, us) \<Rightarrow>
                            respond 200 (Message ''Password has been reset successfully'')
                              (st\<lparr> users := us \<rparr>)))))"

definition UserController_editLoggedUser :: "store \<Rightarrow> string option \<Rightarrow> user_body \<Rightarrow> result" where
  \<comment> \<open>\<open>authId\<close> is \<open>req.userId\<close>. \<open>UserDAO.read\<close> throws when no document has the id, so
      the handler's 404 branch is never taken. \<open>updates\<close> holds the allowed fields
      that are not \<open>undefined\<close> in the body, which \<open>Object.assign\<close> copies onto the
      document\<close>
  "UserController_editLoggedUser st authId b =
     (if falsy authId then respond 401 (Message ''No token provided'') st
      else case GlobalDao_read User (users st) (string_or_empty authId) of
        Inl m \<Rightarrow>
          \<lparr> status = 500, body = Message ''Error getting user information'', cookie = None,
            db = st, console = [m] \<rparr>
      | Inr user \<Rightarrow>
          let user' = user\<lparr>
                firstName := (case req_firstName b of None \<Rightarrow> firstName user | Some v \<Rightarrow> v),
                lastName := (case req_lastName b of None \<Rightarrow> lastName user | Some v \<Rightarrow> v),
                age := (case req_age b of None \<Rightarrow> age user | Some v \<Rightarrow> Some v),
                email := (case req_email b of None \<Rightarrow> email user | Some v \<Rightarrow> v) \<rparr>
          in (case GlobalDao_update User (users st) (u_id user) user' of
                Inl m \<Rightarrow>
                  \<lparr> status = 500, body = Message ''Error getting user information'',
                    cookie = None, db = st, console = [m] \<rparr>
              | Inr (_, us) \<Rightarrow>
                  respond 200 (Message ''User information updated successfully'')
                    (st\<lparr> users := us \<rparr>)))"

section \<open>ReviewController\<close>

definition new_Review :: "objectId \<Rightarrow> review_body \<Rightarrow> review" where
  \<comment> \<open>\<open>new Review(req.body)\<close> with the \<open>_id\<close> the driver draws; the handler has checked
      that the four fields are present, and \<open>trim\<close> is the setter of \<open>comment\<close>\<close>
  "new_Review i b = \<lparr> r_id = i,
     userId = string_or_empty (req_userId b),
     movieId = string_or_empty (req_movieId b),
     comment = trim (string_or_empty (req_comment b)),
     rating = (case req_rating b of None \<Rightarrow> 0 | Some x \<Rightarrow> x) \<rparr>"

definition ReviewController_create :: "store \<Rightarrow> objectId \<Rightarrow> review_body \<Rightarrow> result" where
  "ReviewController_create st newId b =
     (if falsy (req_userId b) \<or> falsy (req_movieId b) \<or> falsy (req_comment b) \<or> req_rating b = None
      then respond 400 (Message ''Faltan campos obligatorios'') st
      else case ReviewDAO_findByUserAndMovie (reviews st) (req_userId b) (req_movieId b) of
        Some existingReview \<Rightarrow> respond 409 (Message msg_ya_resenado) st
      | None \<Rightarrow>
          (case GlobalDao_create Review (reviews st) (new_Review newId b) of
             Inl m \<Rightarrow> respond 500 (Message m) st
           | Inr (review, rs) \<Rightarrow> respond 201 (ReviewBody review) (st\<lparr> reviews := rs \<rparr>)))"


definition ReviewController_update :: "store \<Rightarrow> review_body \<Rightarrow> result" where
  "ReviewController_update st b =
     (case ReviewDAO_updateByUserAndMovie (reviews st) (req_userId b) (req_movieId b)
             (req_comment b) (req_rating b) of
        None \<Rightarrow> respond 404 (Message msg_no_encontro) st
      | Some (review, rs) \<Rightarrow> respond 200 (ReviewBody review) (st\<lparr> reviews := rs \<rparr>))"

definition ReviewController_delete :: "store \<Rightarrow> string \<Rightarrow> result" where
  "ReviewController_delete st i =
     (case GlobalDao_delete Review (reviews st) i of
        Inl m \<Rightarrow> respond 500 (Message m) st
      | Inr (_, rs) \<Rightarrow> respond 200 (Message msg_resena_eliminada) (st\<lparr> reviews := rs \<rparr>))"

section \<open>FavoriteController\<close>

definition new_Favorite :: "objectId \<Rightarrow> review_body \<Rightarrow> favorite" where
  "new_Favorite i b = \<lparr> f_id = i,
     f_userId = string_or_empty (req_userId b),
     f_movieId = string_or_empty (req_movieId b) \<rparr>"

definition FavoriteController_create :: "env \<Rightarrow> store \<Rightarrow> objectId \<Rightarrow> review_body \<Rightarrow> result" where
  "FavoriteController_create e st newId b =
     (if falsy (req_userId b) \<or> falsy (req_movieId b)
      then respond 400 (Message ''Missing userId or movieId'') st
      else case GlobalDao_create Favorite (favorites st) (new_Favorite newId b) of
        Inl m \<Rightarrow>
          \<lparr> status = 500, body = Message ''Internal Server Error'', cookie = None, db = st,
            console = development_log e (''Error creating favorite: '' @ m) \<rparr>
      | Inr (favorite, fs) \<Rightarrow> respond 201 (FavoriteBody favorite) (st\<lparr> favorites := fs \<rparr>))"

definition FavoriteController_delete :: "env \<Rightarrow> store \<Rightarrow> string \<Rightarrow> result" where
  \<comment> \<open>\<open>deleted\<close> is the document \<open>FavoriteDAO.delete\<close> returns, so \<open>!deleted\<close> is false
      whenever the call returns\<close>
  "FavoriteController_delete e st i =
     (if i = [] then respond 400 (Message ''Missing favorite ID'') st
      else case GlobalDao_delete Favorite (favorites st) i of
        Inl m \<Rightarrow>
          \<lparr> status = 500, body = Message ''Internal Server Error'', cookie = None, db = st,
            console = development_log e (''Error deleting favorite: '' @ m) \<rparr>
      | Inr (deleted, fs) \<Rightarrow>
          respond 200 (Message ''Favorite deleted successfully'') (st\<lparr> favorites := fs \<rparr>))"

section \<open>Properties of stored documents\<close>

definition indexes_hold :: "user list \<Rightarrow> bool" where
  \<comment> \<open>the unique indexes of the users collection: \<open>_id\<close>, and \<open>email\<close> by \<open>unique: true\<close>\<close>
  "indexes_hold us = (distinct (map u_id us) \<and> distinct (map email us))"

definition review_invariant :: "review \<Rightarrow> bool" where
  \<comment> \<open>the data model's bounds on a review: rating from 1 to 5, comment of 3 to 1000 characters\<close>
  "review_invariant r =
     (1 \<le> rating r \<and> rating r \<le> 5 \<and> 3 \<le> length (comment r) \<and> length (comment r) \<le> 1000)"


section \<open>An example deployment\<close>

text \<open>
  A small deployment on which the properties below are exercised. \<open>lib0\<close> stands in
  for the two libraries: its hash is a fixed prefix before the password, which is
  all the examples need of it.
\<close>

definition lib0 :: libs where
  "lib0 = \<lparr> bcrypt_hash = (\<lambda>p. ''$2b$10$Salt'' @ p),
            bcrypt_compare = (\<lambda>p h. h = ''$2b$10$Salt'' @ p),
            sgMail_send = (\<lambda>m. None) \<rparr>"

definition env0 :: env where
  "env0 = \<lparr> JWT_SECRET = Some ''s3cret'', COOKIE_CONTROL = Some ''lax'',
            NODE_ENV = Some ''production'',
            ORIGIN = Some ''https://lumix.example, http://localhost:5173'',
            EMAIL_USER = Some ''noreply@lumix.example'' \<rparr>"

definition alice :: user where
  "alice = \<lparr> u_id = ''u1'', firstName = ''Alice'', lastName = ''Doe'', age = Some 30,
             email = ''alice@example.com'', password = ''$2b$10$SaltAbcdef1!'',
             resetPasswordToken = None, resetPasswordExpires = None \<rparr>"

definition bob :: user where
  "bob = \<lparr> u_id = ''u2'', firstName = ''Bob'', lastName = ''Roe'', age = Some 41,
           email = ''bob@example.com'', password = ''$2b$10$SaltQwerty9?'',
           resetPasswordToken = Some (Jwt ''u2'' ''s3cret'' 10 3610),
           resetPasswordExpires = Some 3610000 \<rparr>"

definition store0 :: store where
  "store0 = \<lparr> users = [alice, bob],
     reviews =
       [\<lparr> r_id = ''r1'', userId = ''u1'', movieId = ''m1'', comment = ''good'', rating = 3 \<rparr>,
        \<lparr> r_id = ''r2'', userId = ''u1'', movieId = ''m2'', comment = ''fine'', rating = 2 \<rparr>,
        \<lparr> r_id = ''r3'', userId = ''u2'', movieId = ''m1'', comment = ''great'', rating = 5 \<rparr>],
     favorites = [\<lparr> f_id = ''f1'', f_userId = ''u1'', f_movieId = ''m1'' \<rparr>] \<rparr>"


definition no_origin :: env where
  "no_origin = env0\<lparr> ORIGIN := None \<rparr>"

definition alice_asked :: user where
  \<comment> \<open>\<open>alice\<close> once a reset has been asked for at time 7000\<close>
  "alice_asked = alice\<lparr> resetPasswordToken := Some (jwt_sign ''u1'' ''s3cret'' 3600 7000),
                        resetPasswordExpires := Some 3607000 \<rparr>"

definition no_fields :: user_body where
  "no_fields = \<lparr> req_firstName = None, req_lastName = None, req_age = None,
     req_email = None, req_password = None, req_confirmPassword = None, req_token = None,
     req_resetPasswordToken = None, req_resetPasswordExpires = None \<rparr>"

definition login_alice :: user_body where
  "login_alice =
     no_fields\<lparr> req_email := Some ''alice@example.com'', req_password := Some ''Abcdef1!'' \<rparr>"

definition reset_bob :: user_body where
  "reset_bob =
     no_fields\<lparr> req_email := Some ''bob@example.com'',
                req_token := Some (Jwt ''u2'' ''s3cret'' 10 3610),
                req_password := Some ''Newpass1!'', req_confirmPassword := Some ''Newpass1!'' \<rparr>"

definition forgot_alice :: user_body where
  "forgot_alice = no_fields\<lparr> req_email := Some ''alice@example.com'' \<rparr>"

definition forgot_nobody :: user_body where
  "forgot_nobody = no_fields\<lparr> req_email := Some ''nobody@example.com'' \<rparr>"

definition weak_signup :: user_body where
  "weak_signup =
     no_fields\<lparr> req_firstName := Some ''Carol'', req_lastName := Some ''Poe'', req_age := Some 25,
                req_email := Some ''carol@example.com'',
                req_password := Some ''abcdefg1!'', req_confirmPassword := Some ''abcdefg1!'' \<rparr>"

definition review_again :: review_body where
  "review_again = \<lparr> req_userId = Some ''u1'', req_movieId = Some ''m1'',
     req_comment = Some ''even better'', req_rating = Some 5 \<rparr>"

definition rating_ten :: review_body where
  "rating_ten = \<lparr> req_userId = Some ''u1'', req_movieId = Some ''m1'',
     req_comment = None, req_rating = Some 10 \<rparr>"

definition short_comment :: review_body where
  "short_comment = \<lparr> req_userId = Some ''u2'', req_movieId = Some ''m2'',
     req_comment = Some ''ok'', req_rating = Some 4 \<rparr>"

definition underage_signup :: user_body where
  "underage_signup =
     no_fields\<lparr> req_firstName := Some ''Dan'', req_lastName := Some ''Moe'', req_age := Some 12,
                req_email := Some ''dan@example.com'',
                req_password := Some ''Abcdef1!'', req_confirmPassword := Some ''Abcdef1!'' \<rparr>"

definition edit_alice :: user_body where
  "edit_alice =
     no_fields\<lparr> req_firstName := Some ''Alicia'', req_password := Some ''Hacked1!'',
                req_resetPasswordToken := Some (Opaque ''forged''),
                req_resetPasswordExpires := Some 99999999 \<rparr>"

section \<open>Unfolding on concrete requests\<close>

lemmas policy_defs = passwordRegex_test_def upper_def lower_def digit_def symbol_def symbols_def
  allowed_def ToString_def

lemmas dao_defs = GlobalDao_create_def GlobalDao_read_def GlobalDao_update_def GlobalDao_delete_def
  wrap_def required_def validation_message_def update_validation_message_def User_def Review_def Favorite_def
  UserDao_readByEmail_def UserDao_readByResetToken_def ReviewDAO_findByUserAndMovie_def
  ReviewDAO_updateByUserAndMovie_def string_or_empty_def falsy_def

lemmas example_defs = store0_def alice_def bob_def lib0_def env0_def no_fields_def

section \<open>The unique indexes are kept\<close>

lemma find_SomeD: "find P xs = Some x \<Longrightarrow> x \<in> set xs \<and> P x"
  by (induction xs) (auto split: if_splits)

lemma map_replace1_key:
  "f d = i \<Longrightarrow> map f (replace1 (\<lambda>x. f x = i) d xs) = map f xs"
  by (induction xs) auto

lemma set_replace1_subset:
  "set (replace1 P d xs) \<subseteq> insert d (set xs)"
  by (induction xs) auto

lemma distinct_replace1:
  assumes "distinct (map g xs)"
    and "\<not> list_ex (\<lambda>x. g d = g x \<and> f x \<noteq> i) xs"
    and "distinct (map f xs)"
  shows "distinct (map g (replace1 (\<lambda>x. f x = i) d xs))"
  using assms
proof (induction xs)
  case Nil
  then show ?case by simp
next
  case (Cons a xs)
  show ?case
  proof (cases "f a = i")
    case True
    with Cons.prems show ?thesis
      by (auto simp: list_ex_iff image_iff)
  next
    case False
    from Cons have IH: "distinct (map g (replace1 (\<lambda>x. f x = i) d xs))"
      by (simp add: list_ex_iff)
    have "g a \<notin> g ` set (replace1 (\<lambda>x. f x = i) d xs)"
    proof
      assume "g a \<in> g ` set (replace1 (\<lambda>x. f x = i) d xs)"
      then obtain y where y: "y \<in> set (replace1 (\<lambda>x. f x = i) d xs)" "g y = g a"
        by auto
      with set_replace1_subset [of "\<lambda>x. f x = i" d xs] have "y = d \<or> y \<in> set xs"
        by auto
      then show False
      proof
        assume "y = d"
        with y(2) Cons.prems(2) False show False
          by (simp add: list_ex_iff)
      next
        assume "y \<in> set xs"
        with y(2) Cons.prems(1) show False
          by (auto simp: image_iff)
      qed
    qed
    with False IH show ?thesis by simp
  qed
qed


lemma GlobalDao_update_result:
  "GlobalDao_update M docs i d = Inr (d', docs') \<Longrightarrow>
     d' = d \<and> docs' = replace1 (\<lambda>x. doc_id M x = i) d docs"
  by (auto simp: GlobalDao_update_def wrap_def split: list.splits option.splits if_splits)

lemma GlobalDao_update_unique:
  "GlobalDao_update M docs i d = Inr r \<Longrightarrow>
     \<not> list_ex (\<lambda>x. collide M d x \<and> doc_id M x \<noteq> i) docs"
  by (auto simp: GlobalDao_update_def wrap_def split: list.splits option.splits if_splits)

lemma GlobalDao_create_result:
  "GlobalDao_create M docs d = Inr (d', docs') \<Longrightarrow>
     d' = d \<and> docs' = docs @ [d] \<and>
     \<not> list_ex (\<lambda>x. doc_id M x = doc_id M d \<or> collide M d x) docs"
  by (auto simp: GlobalDao_create_def wrap_def split: list.splits if_splits)

lemma doc_id_User: "doc_id User = u_id"
  by (simp add: User_def)

lemma collide_User: "collide User a b = (email a = email b)"
  by (simp add: User_def)

lemma User_update_keeps_indexes:
  assumes "indexes_hold us" and "u_id d = i"
    and "GlobalDao_update User us i d = Inr (d', us')"
  shows "indexes_hold us'"
proof -
  from GlobalDao_update_result [OF assms(3)] have us': "us' = replace1 (\<lambda>x. u_id x = i) d us"
    by (simp add: doc_id_User)
  from GlobalDao_update_unique [OF assms(3)]
  have free: "\<not> list_ex (\<lambda>x. email d = email x \<and> u_id x \<noteq> i) us"
    by (simp add: doc_id_User collide_User)
  from assms(1) have "distinct (map email (replace1 (\<lambda>x. u_id x = i) d us))"
    by (intro distinct_replace1 free) (simp_all add: indexes_hold_def)
  with assms(1,2) show ?thesis
    by (simp add: us' indexes_hold_def map_replace1_key)
qed

lemma User_create_keeps_indexes:
  assumes "indexes_hold us" and "GlobalDao_create User us d = Inr (d', us')"
  shows "indexes_hold us'"
  using assms(1) GlobalDao_create_result [OF assms(2)]
  by (auto simp: indexes_hold_def list_ex_iff doc_id_User collide_User)

text \<open>
  Every handler that writes to the users collection leaves the unique indexes
  as they hold, so they hold in every store the handlers can build from an
  empty one.
\<close>

lemma handlers_keep_indexes:
  assumes "indexes_hold (users st)"
  shows "indexes_hold (users (db (UserController_create L e st newId b)))"
    and "indexes_hold (users (db (UserController_login L e st b now)))"
    and "indexes_hold (users (db (UserController_forgotPassword L e st b now)))"
    and "indexes_hold (users (db (UserController_resetPassword L e st b now)))"
    and "indexes_hold (users (db (UserController_editLoggedUser st authId b)))"
proof -
  show "indexes_hold (users (db (UserController_create L e st newId b)))"
    using assms
    by (auto simp: UserController_create_def respond_def internal_server_error_def
        dest: User_create_keeps_indexes split: option.splits sum.splits prod.splits)
  show "indexes_hold (users (db (UserController_login L e st b now)))"
    using assms
    by (auto simp: UserController_login_def respond_def internal_server_error_def Let_def
        split: option.splits)
  show "indexes_hold (users (db (UserController_forgotPassword L e st b now)))"
    using assms
    by (auto simp: UserController_forgotPassword_def respond_def forgot_password_error_def Let_def
        dest: User_update_keeps_indexes [rotated 2]
        split: option.splits sum.splits prod.splits list.splits)
  show "indexes_hold (users (db (UserController_resetPassword L e st b now)))"
    using assms
    by (auto simp: UserController_resetPassword_def respond_def Let_def
        dest: User_update_keeps_indexes [rotated 2]
        split: option.splits sum.splits prod.splits)
  show "indexes_hold (users (db (UserController_editLoggedUser st authId b)))"
    using assms
    by (auto simp: UserController_editLoggedUser_def respond_def Let_def
        dest: User_update_keeps_indexes [rotated 2]
        split: option.splits sum.splits prod.splits)
qed

section \<open>Login and token verification\<close>

lemma find_by_unique_key:
  "distinct (map f xs) \<Longrightarrow> x \<in> set xs \<Longrightarrow> find (\<lambda>y. f y = f x) xs = Some x"
proof (induction xs)
  case Nil
  then show ?case by simp
next
  case (Cons a xs)
  then show ?case by (cases "a = x") (auto simp: image_iff)
qed

lemma readByEmail_registered:
  assumes "distinct (map email us)" and "u \<in> set us"
  shows "UserDao_readByEmail us (Some (email u)) = Some u"
  using find_by_unique_key [OF assms] by (simp add: UserDao_readByEmail_def)

text \<open>
  Claim C1. A user \<open>u\<close> is registered in a store whose unique indexes hold, and
  \<open>bcrypt.compare\<close> accepts the password \<open>p\<close> against the stored hash. With the
  signing secret and \<open>COOKIE_CONTROL\<close> configured, a login with the user's email
  and \<open>p\<close> answers 200 and sets as cookie a token signed for the user's id, and
  \<open>authenticateToken\<close> on that cookie, at once or at any time before the two
  hours are over, passes the user's id on.
\<close>

theorem login_then_verify:
  assumes registered: "u \<in> set (users st)"
    and indexes: "indexes_hold (users st)"
    and hashed: "bcrypt_compare L p (password u)"
    and request: "req_email b = Some (email u)" "req_password b = Some p"
    and secret: "JWT_SECRET e = Some k" "k \<noteq> []"
    and sameSite: "\<not> falsy (COOKIE_CONTROL e)"
    and time: "now \<le> t" "t div 1000 < now div 1000 + 7200"
  shows "status (UserController_login L e st b now) = 200
    \<and> cookie (UserController_login L e st b now) = Some (jwt_sign (u_id u) k 7200 now)
    \<and> authenticateToken e (cookie (UserController_login L e st b now)) t = Next (u_id u)"
proof -
  from indexes have unique: "distinct (map email (users st))"
    by (simp add: indexes_hold_def)
  have found: "UserDao_readByEmail (users st) (req_email b) = Some u"
    using readByEmail_registered [OF unique registered] request(1) by simp
  have login: "UserController_login L e st b now =
      \<lparr> status = 200, body = LoginBody ''Login successful'' (u_id u) (email u),
        cookie = Some (jwt_sign (u_id u) k 7200 now), db = st, console = [] \<rparr>"
    using found hashed request(2) secret sameSite
    by (simp add: UserController_login_def)
  have verify: "jwt_verify (jwt_sign (u_id u) k 7200 now) k t = Some (u_id u)"
    using time by (simp add: jwt_verify_def jwt_sign_def)
  show ?thesis
    using verify secret
    by (simp add: login authenticateToken_def no_token_def jwt_sign_def)
qed

theorem login_then_verify_witness:
  "status (UserController_login lib0 env0 store0 login_alice 5000) = 200
   \<and> cookie (UserController_login lib0 env0 store0 login_alice 5000)
       = Some (jwt_sign (u_id alice) ''s3cret'' 7200 5000)
   \<and> authenticateToken env0 (cookie (UserController_login lib0 env0 store0 login_alice 5000)) 5000
       = Next (u_id alice)"
proof (rule login_then_verify)
  show "alice \<in> set (users store0)"
    by (simp add: store0_def)
  show "indexes_hold (users store0)"
    by (simp add: indexes_hold_def store0_def alice_def bob_def)
  show "bcrypt_compare lib0 ''Abcdef1!'' (password alice)"
    by (simp add: lib0_def alice_def)
  show "req_email login_alice = Some (email alice)" and "req_password login_alice = Some ''Abcdef1!''"
    by (simp_all add: login_alice_def no_fields_def alice_def)
  show "JWT_SECRET env0 = Some ''s3cret''" and "''s3cret'' \<noteq> []" and "\<not> falsy (COOKIE_CONTROL env0)"
    by (simp_all add: env0_def falsy_def)
  show "(5000::nat) \<le> 5000" and "(5000::nat) div 1000 < 5000 div 1000 + 7200"
    by simp_all
qed

section \<open>Password reset\<close>

lemma set_replace1:
  "distinct (map f xs) \<Longrightarrow> x \<in> set (replace1 (\<lambda>y. f y = i) d xs) \<Longrightarrow>
     x = d \<or> (x \<in> set xs \<and> f x \<noteq> i)"
proof (induction xs)
  case Nil
  then show ?case by simp
next
  case (Cons a xs)
  then show ?case by (auto simp: image_iff split: if_splits)
qed

lemma resetPassword_success:
  assumes ok: "status (UserController_resetPassword L e st b now) = 200"
  shows "\<exists>user h. UserDao_readByResetToken (users st) (req_email b) (req_token b) now = Some user
     \<and> db (UserController_resetPassword L e st b now) =
         st\<lparr> users := replace1 (\<lambda>x. u_id x = u_id user)
             (user\<lparr> password := h, resetPasswordToken := None, resetPasswordExpires := None \<rparr>)
             (users st) \<rparr>"
proof (cases "UserDao_readByResetToken (users st) (req_email b) (req_token b) now")
  case None
  with ok show ?thesis
    by (simp add: UserController_resetPassword_def respond_def)
next
  case (Some user)
  obtain err b1 where valid: "UserController_passwordValidation b = (err, b1)"
    by (cases "UserController_passwordValidation b")
  show ?thesis
  proof (cases err)
    case (Some passwordError)
    with ok \<open>UserDao_readByResetToken (users st) (req_email b) (req_token b) now = Some user\<close> valid
    show ?thesis
      by (simp add: UserController_resetPassword_def respond_def)
  next
    case None
    note no_error = this
    show ?thesis
    proof (cases "UserController_hashPassword L b1")
      case (Inl m)
      with ok Some valid no_error show ?thesis
        by (simp add: UserController_resetPassword_def)
    next
      case (Inr b2)
      let ?user' = "user\<lparr> password := string_or_empty (req_password b2),
                            resetPasswordToken := None, resetPasswordExpires := None \<rparr>"
      show ?thesis
      proof (cases "GlobalDao_update User (users st) (u_id user) ?user'")
        case (Inl m)
        with ok Some valid no_error Inr show ?thesis
          by (simp add: UserController_resetPassword_def)
      next
        case update: (Inr p)
        obtain d us where p: "p = (d, us)"
          by (cases p)
        from update p have "us = replace1 (\<lambda>x. u_id x = u_id user) ?user' (users st)"
          using GlobalDao_update_result [of User "users st" "u_id user" ?user' d us]
          by (simp add: doc_id_User)
        with Some valid no_error Inr update p show ?thesis
          by (auto simp: UserController_resetPassword_def respond_def)
      qed
    qed
  qed
qed

lemma resetPassword_no_user:
  "UserDao_readByResetToken (users s) (req_email b) (req_token b) now = None \<Longrightarrow>
     UserController_resetPassword L e s b now = respond 400 (Message msg_token_invalido) s"
  by (simp add: UserController_resetPassword_def)

text \<open>
  Claim C2. In a store whose unique indexes hold, once a \<open>resetPassword\<close> call
  has answered 200, any later call with the same email and token, whatever its
  passwords and its time, answers 400 with the invalid-or-expired-token message
  and leaves the store, so the stored password too, as the first call left it.
\<close>

theorem reset_token_single_use:
  assumes indexes: "indexes_hold (users st)"
    and first: "status (UserController_resetPassword L e st b now) = 200"
    and same: "req_email b' = req_email b" "req_token b' = req_token b"
  shows "status (UserController_resetPassword L' e' (db (UserController_resetPassword L e st b now)) b' now') = 400
    \<and> body (UserController_resetPassword L' e' (db (UserController_resetPassword L e st b now)) b' now')
        = Message msg_token_invalido
    \<and> db (UserController_resetPassword L' e' (db (UserController_resetPassword L e st b now)) b' now')
        = db (UserController_resetPassword L e st b now)"
proof -
  from indexes have ids: "distinct (map u_id (users st))"
    and emails: "distinct (map email (users st))"
    by (simp_all add: indexes_hold_def)
  from resetPassword_success [OF first] obtain user h where
    found: "UserDao_readByResetToken (users st) (req_email b) (req_token b) now = Some user"
    and after: "db (UserController_resetPassword L e st b now) =
         st\<lparr> users := replace1 (\<lambda>x. u_id x = u_id user)
             (user\<lparr> password := h, resetPasswordToken := None, resetPasswordExpires := None \<rparr>)
             (users st) \<rparr>"
    by blast
  let ?cleared = "user\<lparr> password := h, resetPasswordToken := None, resetPasswordExpires := None \<rparr>"
  let ?us = "replace1 (\<lambda>x. u_id x = u_id user) ?cleared (users st)"
  from found have user: "user \<in> set (users st)" "Some (email user) = req_email b"
    by (auto simp: UserDao_readByResetToken_def dest: find_SomeD)
  have "\<not> (Some (email x) = req_email b \<and> resetPasswordToken x = req_token b \<and>
            (case resetPasswordExpires x of None \<Rightarrow> False | Some y \<Rightarrow> now' < y))"
    if "x \<in> set ?us" for x
  proof -
    from set_replace1 [OF ids that] consider "x = ?cleared" | "x \<in> set (users st)" "u_id x \<noteq> u_id user"
      by blast
    then show ?thesis
    proof cases
      case 1
      then show ?thesis by simp
    next
      case 2
      have "email x \<noteq> email user"
      proof
        assume "email x = email user"
        with emails 2(1) user(1) have "x = user"
          by (simp add: distinct_map inj_on_def)
        with 2(2) show False by simp
      qed
      with user(2) show ?thesis by (metis option.inject)
    qed
  qed
  then have none: "UserDao_readByResetToken ?us (req_email b') (req_token b') now' = None"
    unfolding UserDao_readByResetToken_def same find_None_iff by blast
  have "UserController_resetPassword L' e' (db (UserController_resetPassword L e st b now)) b' now'
      = respond 400 (Message msg_token_invalido) (db (UserController_resetPassword L e st b now))"
    by (rule resetPassword_no_user) (simp add: after none)
  then show ?thesis
    by (simp add: respond_def)
qed

theorem reset_token_single_use_witness:
  "status (UserController_resetPassword lib0 env0 store0 reset_bob 20000) = 200
   \<and> status (UserController_resetPassword lib0 env0
        (db (UserController_resetPassword lib0 env0 store0 reset_bob 20000)) reset_bob 20001) = 400"
proof -
  have indexes: "indexes_hold (users store0)"
    by (simp add: indexes_hold_def example_defs)
  have first: "status (UserController_resetPassword lib0 env0 store0 reset_bob 20000) = 200"
    by (simp add: UserController_resetPassword_def UserController_passwordValidation_def
      UserController_hashPassword_def respond_def reset_bob_def policy_defs dao_defs example_defs)
  from reset_token_single_use [OF indexes first refl refl, of lib0 env0 20001] first
  show ?thesis by simp
qed

section \<open>Forgotten password\<close>

lemmas forgot_defs = UserController_forgotPassword_def forgot_password_error_def origins_def
  trim_def whitespace_def jwt_sign_def respond_def msg_subject_def

text \<open>
  Claim C3, as the specification has it, asks for the same status and message
  whether or not the email is registered. On the example deployment the
  registered \<open>alice@example.com\<close> is answered 200 \<open>Password reset email sent\<close> and the
  unknown \<open>nobody@example.com\<close> 202 with the generic message.
\<close>

theorem forgotPassword_distinguishes:
  "UserDao_readByEmail (users store0) (req_email forgot_alice) \<noteq> None
   \<and> UserDao_readByEmail (users store0) (req_email forgot_nobody) = None
   \<and> status (UserController_forgotPassword lib0 env0 store0 forgot_alice 5000) = 200
   \<and> status (UserController_forgotPassword lib0 env0 store0 forgot_nobody 5000) = 202
   \<and> body (UserController_forgotPassword lib0 env0 store0 forgot_alice 5000)
       = Message ''Password reset email sent''
   \<and> body (UserController_forgotPassword lib0 env0 store0 forgot_nobody 5000)
       = Message ''If the email is registered, you will receive a password reset email''
   \<and> status (UserController_forgotPassword lib0 env0 store0 forgot_alice 5000)
       \<noteq> status (UserController_forgotPassword lib0 env0 store0 forgot_nobody 5000)
   \<and> body (UserController_forgotPassword lib0 env0 store0 forgot_alice 5000)
       \<noteq> body (UserController_forgotPassword lib0 env0 store0 forgot_nobody 5000)"
  by (simp add: forgot_defs forgot_alice_def forgot_nobody_def policy_defs dao_defs example_defs)

text \<open>
  Claim C3, amended. \<open>forgotPassword\<close> answers an email that is not in the store
  with 202 and the generic message, and leaves the store as it is. It answers
  an email that is in the store with 200 and \<open>Password reset email sent\<close>, the
  token and its expiry stored, when the signing secret is set, the store
  accepts the update, \<open>ORIGIN\<close> names an origin and the mail is accepted; when the
  secret is missing, the update is refused, \<open>ORIGIN\<close> names no origin or the mail
  is not accepted, it answers 500 and \<open>Internal Server Error\<close>.
\<close>

theorem forgotPassword_acknowledgment:
  "(UserDao_readByEmail (users st) (req_email b) = None \<longrightarrow>
      status (UserController_forgotPassword L e st b now) = 202
      \<and> body (UserController_forgotPassword L e st b now)
          = Message ''If the email is registered, you will receive a password reset email''
      \<and> db (UserController_forgotPassword L e st b now) = st)
   \<and> (UserDao_readByEmail (users st) (req_email b) = Some u
       \<and> JWT_SECRET e = Some k \<and> k \<noteq> []
       \<and> GlobalDao_update User (users st) (u_id u)
            (u\<lparr> resetPasswordToken := Some (jwt_sign (u_id u) k 3600 now),
                resetPasswordExpires := Some (now + 3600000) \<rparr>) = Inr (d, us)
       \<and> origins e = baseUrl # rest
       \<and> sgMail_send L \<lparr> mail_to = email u, mail_from = EMAIL_USER e,
            mail_subject = msg_subject, mail_baseUrl = baseUrl,
            mail_token = jwt_sign (u_id u) k 3600 now, mail_email = email u \<rparr> = None \<longrightarrow>
      status (UserController_forgotPassword L e st b now) = 200
      \<and> body (UserController_forgotPassword L e st b now) = Message ''Password reset email sent''
      \<and> db (UserController_forgotPassword L e st b now) = st\<lparr> users := us \<rparr>)
   \<and> (UserDao_readByEmail (users st) (req_email b) = Some u
       \<and> (falsy (JWT_SECRET e)
          \<or> JWT_SECRET e = Some k
             \<and> (GlobalDao_update User (users st) (u_id u)
                  (u\<lparr> resetPasswordToken := Some (jwt_sign (u_id u) k 3600 now),
                      resetPasswordExpires := Some (now + 3600000) \<rparr>) = Inl m
                \<or> origins e = []
                \<or> origins e = baseUrl # rest
                   \<and> sgMail_send L \<lparr> mail_to = email u, mail_from = EMAIL_USER e,
                        mail_subject = msg_subject, mail_baseUrl = baseUrl,
                        mail_token = jwt_sign (u_id u) k 3600 now, mail_email = email u \<rparr>
                      = Some m)) \<longrightarrow>
      status (UserController_forgotPassword L e st b now) = 500
      \<and> body (UserController_forgotPassword L e st b now) = Message ''Internal Server Error'')"
  by (auto simp: UserController_forgotPassword_def forgot_password_error_def respond_def Let_def
      falsy_def split: option.splits sum.splits list.splits prod.splits)

theorem forgotPassword_acknowledgment_witness:
  "status (UserController_forgotPassword lib0 env0 store0 forgot_nobody 7000) = 202
   \<and> db (UserController_forgotPassword lib0 env0 store0 forgot_nobody 7000) = store0
   \<and> status (UserController_forgotPassword lib0 env0 store0 forgot_alice 7000) = 200
   \<and> body (UserController_forgotPassword lib0 env0 store0 forgot_alice 7000)
       = Message ''Password reset email sent''
   \<and> db (UserController_forgotPassword lib0 env0 store0 forgot_alice 7000)
       = store0\<lparr> users := [alice_asked, bob] \<rparr>
   \<and> status (UserController_forgotPassword lib0 no_origin store0 forgot_alice 7000) = 500"
proof -
  have nobody: "UserDao_readByEmail (users store0) (req_email forgot_nobody) = None"
    by (simp add: forgot_nobody_def dao_defs example_defs)
  have known: "UserDao_readByEmail (users store0) (req_email forgot_alice) = Some alice"
    by (simp add: forgot_alice_def dao_defs example_defs)
  have secret: "JWT_SECRET env0 = Some ''s3cret''" "JWT_SECRET no_origin = Some ''s3cret''"
    "''s3cret'' \<noteq> []"
    by (simp_all add: env0_def no_origin_def)
  have stored: "GlobalDao_update User (users store0) (u_id alice)
      (alice\<lparr> resetPasswordToken := Some (jwt_sign (u_id alice) ''s3cret'' 3600 7000),
              resetPasswordExpires := Some (7000 + 3600000) \<rparr>)
      = Inr (alice_asked, [alice_asked, bob])"
    by (simp add: alice_asked_def policy_defs dao_defs example_defs)
  have origin: "origins env0 = [''https://lumix.example'', ''http://localhost:5173'']"
    "origins no_origin = []"
    by (simp_all add: origins_def env0_def no_origin_def trim_def whitespace_def)
  have sent: "sgMail_send lib0 \<lparr> mail_to = email alice, mail_from = EMAIL_USER env0,
      mail_subject = msg_subject, mail_baseUrl = ''https://lumix.example'',
      mail_token = jwt_sign (u_id alice) ''s3cret'' 3600 7000, mail_email = email alice \<rparr> = None"
    by (simp add: lib0_def)
  from forgotPassword_acknowledgment [where st = store0 and b = forgot_nobody and L = lib0
      and e = env0 and now = 7000] nobody
  have unknown: "status (UserController_forgotPassword lib0 env0 store0 forgot_nobody 7000) = 202
      \<and> db (UserController_forgotPassword lib0 env0 store0 forgot_nobody 7000) = store0"
    by blast
  from forgotPassword_acknowledgment [where st = store0 and b = forgot_alice and L = lib0
      and e = env0 and now = 7000 and u = alice and k = "''s3cret''" and d = alice_asked
      and us = "[alice_asked, bob]" and baseUrl = "''https://lumix.example''"
      and rest = "[''http://localhost:5173'']"]
    known secret stored origin sent
  have registered: "status (UserController_forgotPassword lib0 env0 store0 forgot_alice 7000) = 200
      \<and> body (UserController_forgotPassword lib0 env0 store0 forgot_alice 7000)
          = Message ''Password reset email sent''
      \<and> db (UserController_forgotPassword lib0 env0 store0 forgot_alice 7000)
          = store0\<lparr> users := [alice_asked, bob] \<rparr>"
    by blast
  from forgotPassword_acknowledgment [where st = store0 and b = forgot_alice and L = lib0
      and e = no_origin and now = 7000 and u = alice and k = "''s3cret''"]
    known secret origin
  have failed: "status (UserController_forgotPassword lib0 no_origin store0 forgot_alice 7000) = 500"
    by blast
  from unknown registered failed show ?thesis by blast
qed

section \<open>Password policy on registration and reset\<close>

lemma passwordValidation_weak:
  assumes "req_password b = Some p"
    and "length p < 8 \<or> \<not> list_ex upper p \<or> \<not> list_ex digit p \<or> \<not> list_ex symbol p"
  shows "\<exists>m b'. UserController_passwordValidation b = (Some m, b')"
proof (cases "req_password b = req_confirmPassword b")
  case False
  then show ?thesis
    by (simp add: UserController_passwordValidation_def)
next
  case True
  from assms have "\<not> passwordRegex_test (ToString (req_password b))"
    by (auto simp: passwordRegex_test_def ToString_def)
  with True show ?thesis
    by (simp add: UserController_passwordValidation_def Let_def)
qed

text \<open>
  Claim C4. A request whose password has fewer than 8 characters, or no
  upper-case letter, or no digit, or no symbol is refused by
  \<open>passwordValidation\<close>; registration and password reset both answer it with 400
  and leave the store as it was, so no user is created or modified.
\<close>

theorem weak_password_rejected:
  assumes "req_password b = Some p"
    and "length p < 8 \<or> \<not> list_ex upper p \<or> \<not> list_ex digit p \<or> \<not> list_ex symbol p"
  shows "fst (UserController_passwordValidation b) \<noteq> None
    \<and> status (UserController_create L e st newId b) = 400
    \<and> db (UserController_create L e st newId b) = st
    \<and> status (UserController_resetPassword L e st b now) = 400
    \<and> db (UserController_resetPassword L e st b now) = st"
proof -
  from passwordValidation_weak [OF assms] obtain m b'
    where rejected: "UserController_passwordValidation b = (Some m, b')"
    by blast
  then show ?thesis
    by (simp add: UserController_create_def UserController_resetPassword_def respond_def
        split: option.splits)
qed

theorem weak_password_rejected_witness:
  "status (UserController_create lib0 env0 store0 ''u3'' weak_signup) = 400
   \<and> db (UserController_create lib0 env0 store0 ''u3'' weak_signup) = store0
   \<and> status (UserController_resetPassword lib0 env0 store0
        (reset_bob\<lparr> req_password := Some ''Short1!'', req_confirmPassword := Some ''Short1!'' \<rparr>) 20000) = 400
   \<and> db (UserController_resetPassword lib0 env0 store0
        (reset_bob\<lparr> req_password := Some ''Short1!'', req_confirmPassword := Some ''Short1!'' \<rparr>) 20000) = store0"
proof -
  have no_upper: "req_password weak_signup = Some ''abcdefg1!''"
    "length ''abcdefg1!'' < 8 \<or> \<not> list_ex upper ''abcdefg1!'' \<or> \<not> list_ex digit ''abcdefg1!''
      \<or> \<not> list_ex symbol ''abcdefg1!''"
    by (simp_all add: weak_signup_def no_fields_def upper_def)
  have short: "req_password (reset_bob\<lparr> req_password := Some ''Short1!'', req_confirmPassword := Some ''Short1!'' \<rparr>)
      = Some ''Short1!''"
    "length ''Short1!'' < 8 \<or> \<not> list_ex upper ''Short1!'' \<or> \<not> list_ex digit ''Short1!''
      \<or> \<not> list_ex symbol ''Short1!''"
    by simp_all
  from weak_password_rejected [OF no_upper, of lib0 env0 store0 "''u3''" 0]
    weak_password_rejected [OF short, of lib0 env0 store0 "''u4''" 20000]
  show ?thesis by simp
qed

section \<open>Duplicate reviews\<close>

lemma findByUserAndMovie_existing:
  assumes "r \<in> set rs"
  shows "ReviewDAO_findByUserAndMovie rs (Some (userId r)) (Some (movieId r)) \<noteq> None"
  using assms by (auto simp: ReviewDAO_findByUserAndMovie_def find_None_iff)

text \<open>
  A request that names the pair of a stored review never adds a review, whether
  it is answered 400 for a missing field or 409.
\<close>

lemma duplicate_review_never_stored:
  assumes "r \<in> set (reviews st)"
    and "req_userId b = Some (userId r)" "req_movieId b = Some (movieId r)"
  shows "db (ReviewController_create st newId b) = st"
    and "status (ReviewController_create st newId b) = 400
      \<or> status (ReviewController_create st newId b) = 409"
proof -
  from findByUserAndMovie_existing [OF assms(1)] obtain existingReview where
    "ReviewDAO_findByUserAndMovie (reviews st) (req_userId b) (req_movieId b) = Some existingReview"
    using assms(2,3) by auto
  then show "db (ReviewController_create st newId b) = st"
    and "status (ReviewController_create st newId b) = 400
      \<or> status (ReviewController_create st newId b) = 409"
    by (simp_all add: ReviewController_create_def respond_def)
qed

text \<open>
  Claim C5. The store holds a review \<open>r\<close> of a user for a movie. A create-review
  request for the same pair that carries the four required fields answers 409
  with the already-reviewed message and leaves the store as it was, so no second
  review of the pair is created.
\<close>

theorem duplicate_review_conflict:
  assumes stored: "r \<in> set (reviews st)" "userId r \<noteq> []" "movieId r \<noteq> []"
    and pair: "req_userId b = Some (userId r)" "req_movieId b = Some (movieId r)"
    and fields: "\<not> falsy (req_comment b)" "req_rating b \<noteq> None"
  shows "status (ReviewController_create st newId b) = 409
    \<and> body (ReviewController_create st newId b) = Message msg_ya_resenado
    \<and> db (ReviewController_create st newId b) = st"
proof -
  from findByUserAndMovie_existing [OF stored(1)] obtain existingReview where
    "ReviewDAO_findByUserAndMovie (reviews st) (req_userId b) (req_movieId b) = Some existingReview"
    using pair by auto
  moreover have "\<not> (falsy (req_userId b) \<or> falsy (req_movieId b) \<or> falsy (req_comment b)
      \<or> req_rating b = None)"
    using stored(2,3) pair fields by (simp add: falsy_def)
  ultimately show ?thesis
    by (simp add: ReviewController_create_def respond_def)
qed

theorem duplicate_review_conflict_witness:
  "status (ReviewController_create store0 ''r4'' review_again) = 409
   \<and> body (ReviewController_create store0 ''r4'' review_again) = Message msg_ya_resenado
   \<and> db (ReviewController_create store0 ''r4'' review_again) = store0"
proof (rule duplicate_review_conflict)
  show "\<lparr> r_id = ''r1'', userId = ''u1'', movieId = ''m1'', comment = ''good'', rating = 3 \<rparr>
      \<in> set (reviews store0)"
    by (simp add: store0_def)
qed (simp_all add: review_again_def falsy_def)

section \<open>Deleting a document that does not exist\<close>

text \<open>
  Whatever the store holds, deleting an id that no document has answers 500.
\<close>

lemma delete_of_missing_id:
  assumes "find (\<lambda>f. f_id f = i) (favorites st) = None" and "i \<noteq> []"
    and "find (\<lambda>r. r_id r = j) (reviews st) = None"
  shows "FavoriteController_delete e st i =
      \<lparr> status = 500, body = Message ''Internal Server Error'', cookie = None, db = st,
        console = development_log e
          (''Error deleting favorite: Error deleting document by ID: Document not found'') \<rparr>"
    and "ReviewController_delete st j =
      respond 500 (Message ''Error deleting document by ID: Document not found'') st"
  using assms
  by (simp_all add: FavoriteController_delete_def ReviewController_delete_def GlobalDao_delete_def
      wrap_def Favorite_def Review_def)

text \<open>
  Claim C6 asks for 404 and never 500. \<open>GlobalDao.delete\<close> throws when no document
  has the id, and both handlers turn what is thrown into 500: on the example
  deployment no favorite has id \<open>f9\<close> and no review has id \<open>r9\<close>, and deleting
  them answers 500.
\<close>

theorem delete_missing_answers_500:
  "find (\<lambda>f. f_id f = ''f9'') (favorites store0) = None
   \<and> status (FavoriteController_delete env0 store0 ''f9'') = 500
   \<and> body (FavoriteController_delete env0 store0 ''f9'') = Message ''Internal Server Error''
   \<and> find (\<lambda>r. r_id r = ''r9'') (reviews store0) = None
   \<and> status (ReviewController_delete store0 ''r9'') = 500
   \<and> body (ReviewController_delete store0 ''r9'')
       = Message ''Error deleting document by ID: Document not found''"
  by (simp add: FavoriteController_delete_def ReviewController_delete_def respond_def
      development_log_def dao_defs example_defs)

section \<open>The bounds of a stored review\<close>

lemma create_keeps_review_invariant:
  assumes "list_all review_invariant (reviews st)"
  shows "list_all review_invariant (reviews (db (ReviewController_create st newId b)))"
proof -
  have "review_invariant d" if "validators Review d = []" for d
    using that
    by (auto simp: Review_def required_def review_invariant_def split: if_splits)
  with assms show ?thesis
    by (auto simp: ReviewController_create_def GlobalDao_create_def wrap_def respond_def
        split: option.splits list.splits if_splits)
qed

text \<open>
  An update of a review that is found sets whatever rating the request carries.
\<close>

lemma update_sets_any_rating:
  assumes "ReviewDAO_findByUserAndMovie (reviews st) (req_userId b) (req_movieId b) = Some r"
    and "req_comment b = None" and "req_rating b = Some x"
  shows "status (ReviewController_update st b) = 200"
    and "body (ReviewController_update st b) = ReviewBody (r\<lparr> rating := x \<rparr>)"
    and "r\<lparr> rating := x \<rparr> \<in> set (reviews (db (ReviewController_update st b)))"
proof -
  let ?P = "\<lambda>r. Some (userId r) = req_userId b \<and> Some (movieId r) = req_movieId b"
  from assms(1) have found: "find ?P (reviews st) = Some r"
    by (simp add: ReviewDAO_findByUserAndMovie_def)
  have "d \<in> set (replace1 P d xs)" if "find P xs = Some y" for P d y and xs :: "review list"
    using that by (induction xs) (auto split: if_splits)
  from this [OF found] have "r\<lparr> rating := x \<rparr> \<in> set (replace1 ?P (r\<lparr> rating := x \<rparr>) (reviews st))" .
  with found assms(2,3)
  show "status (ReviewController_update st b) = 200"
    and "body (ReviewController_update st b) = ReviewBody (r\<lparr> rating := x \<rparr>)"
    and "r\<lparr> rating := x \<rparr> \<in> set (reviews (db (ReviewController_update st b)))"
    by (simp_all add: ReviewController_update_def ReviewDAO_updateByUserAndMovie_def respond_def
        Let_def)
qed

text \<open>
  Claim C7 asks that every stored review keeps a rating from 1 to 5 and a comment
  of 3 to 1000 characters through updates. Every review of the example store is
  within the bounds; the update of the first review to rating 10 answers 200 and
  stores the rating, while \<open>GlobalDao.update\<close>, which runs the validators,
  refuses the same document.
\<close>

theorem update_stores_invalid_review:
  "list_all review_invariant (reviews store0)
   \<and> status (ReviewController_update store0 rating_ten) = 200
   \<and> body (ReviewController_update store0 rating_ten)
       = ReviewBody \<lparr> r_id = ''r1'', userId = ''u1'', movieId = ''m1'', comment = ''good'', rating = 10 \<rparr>
   \<and> \<not> list_all review_invariant (reviews (db (ReviewController_update store0 rating_ten)))
   \<and> GlobalDao_update Review (reviews store0) ''r1''
        \<lparr> r_id = ''r1'', userId = ''u1'', movieId = ''m1'', comment = ''good'', rating = 10 \<rparr>
       = Inl (''Error updating document by ID: Validation failed: rating: ''
              @ msg_calificacion_maxima)"
  by (simp add: ReviewController_update_def respond_def review_invariant_def rating_ten_def
      Let_def msg_calificacion_maxima_def dao_defs example_defs)

section \<open>Average rating\<close>









section \<open>Error responses\<close>

text \<open>
  Whenever creating a review answers 500, the body is the message of the error
  the DAO has thrown, and the console stays empty.
\<close>

lemma review_create_sends_error_message:
  assumes "status (ReviewController_create st newId b) = 500"
  shows "\<exists>m. GlobalDao_create Review (reviews st) (new_Review newId b) = Inl m
    \<and> body (ReviewController_create st newId b) = Message m
    \<and> console (ReviewController_create st newId b) = []"
  using assms
  by (auto simp: ReviewController_create_def respond_def
      split: if_splits option.splits sum.splits prod.splits)

text \<open>
  Claim C9 asks that no response carries the text of an internal error. A review
  whose comment is too short makes the store refuse the document;
  \<open>ReviewController.create\<close> answers 500 with the error's message as the body's
  message and writes nothing to the console, where \<open>UserController.create\<close>
  answers a refused document with the fixed \<open>Internal Server Error\<close>.
\<close>

theorem review_error_text_in_response:
  "status (ReviewController_create store0 ''r4'' short_comment) = 500
   \<and> body (ReviewController_create store0 ''r4'' short_comment)
       = Message (''Error creating document: Review validation failed: comment: ''
                  @ msg_comentario_corto)
   \<and> console (ReviewController_create store0 ''r4'' short_comment) = []
   \<and> status (UserController_create lib0 env0 store0 ''u3'' underage_signup) = 500
   \<and> body (UserController_create lib0 env0 store0 ''u3'' underage_signup)
       = Message ''Internal Server Error''"
  by (simp add: ReviewController_create_def new_Review_def respond_def short_comment_def
      trim_def whitespace_def
      UserController_create_def UserController_passwordValidation_def UserController_hashPassword_def
      new_User_def internal_server_error_def development_log_def underage_signup_def
      policy_defs dao_defs example_defs)

section \<open>Editing the profile\<close>




text \<open>
  On the example deployment an edit that also sends a password and reset fields
  changes the first name and nothing else.
\<close>

lemma editLoggedUser_example:
  "status (UserController_editLoggedUser store0 (Some ''u1'') edit_alice) = 200
   \<and> users (db (UserController_editLoggedUser store0 (Some ''u1'') edit_alice))
       = [alice\<lparr> firstName := ''Alicia'' \<rparr>, bob]"
  by (simp add: UserController_editLoggedUser_def respond_def edit_alice_def
      policy_defs dao_defs example_defs)

end
